theory Spec2Isabelle
  imports Main
begin

section \<open>The backoff executor (\<open>withExponentialBackoff\<close>, script.js lines 53-63)\<close>

text \<open>
  The operation \<open>fn\<close> is a zero-argument asynchronous function. It is modelled by explicit
  state passing over the state \<open>'s\<close> of everything outside the executor: one invocation
  maps the state to the settled result (\<open>Inl error\<close> for a rejection or a throw,
  \<open>Inr value\<close> for a resolved value) and the next state. \<open>setTimeout\<close> is what waiting
  for the given number of milliseconds does to that state. An operation whose promise never
  settles is outside the model.

  \<open>maxRetries\<close> and the loop counter are integers (the executor is called with counts).
  The executor itself either rejects with an error (\<open>Inl\<close>), resolves with the value of
  \<open>fn\<close> (\<open>Inr (Some v)\<close>), or leaves the loop without a \<open>return\<close> and resolves with
  \<open>undefined\<close> (\<open>Inr None\<close>).

  Besides the result and the final state, the model returns the list of what the executor
  did, in order: \<open>Attempt i r\<close> for the invocation of \<open>fn\<close> in iteration \<open>i\<close> with its
  result, \<open>Timeout d\<close> for a suspension with delay \<open>d\<close> handed to the timer.
\<close>

datatype ('e, 'a) backoff_event = Attempt int "'e + 'a" | Timeout int

fun is_Attempt :: "('e, 'a) backoff_event \<Rightarrow> bool" where
  "is_Attempt (Attempt i r) = True"
| "is_Attempt (Timeout d) = False"

function backoff_loop ::
  "('s \<Rightarrow> ('e + 'a) \<times> 's) \<Rightarrow> (int \<Rightarrow> 's \<Rightarrow> 's) \<Rightarrow> int \<Rightarrow> int \<Rightarrow> 's
     \<Rightarrow> ('e + 'a option) \<times> ('e, 'a) backoff_event list \<times> 's" where
  "backoff_loop fn setTimeout maxRetries i s =
     (if i < maxRetries then
        (case fn s of
           (Inr v, s1) \<Rightarrow> (Inr (Some v), [Attempt i (Inr v)], s1)
         | (Inl error, s1) \<Rightarrow>
             if i = maxRetries - 1 then (Inl error, [Attempt i (Inl error)], s1)
             else
               (let delay = 2 ^ nat i * 1000;
                    (r, evs, s2) = backoff_loop fn setTimeout maxRetries (i + 1) (setTimeout delay s1)
                in (r, Attempt i (Inl error) # Timeout delay # evs, s2)))
      else (Inr None, [], s))"
  by pat_completeness auto
termination
  by (relation "measure (\<lambda>(fn, setTimeout, maxRetries, i, s). nat (maxRetries - i))") auto

definition withExponentialBackoff ::
  "('s \<Rightarrow> ('e + 'a) \<times> 's) \<Rightarrow> (int \<Rightarrow> 's \<Rightarrow> 's) \<Rightarrow> int \<Rightarrow> 's
     \<Rightarrow> ('e + 'a option) \<times> ('e, 'a) backoff_event list \<times> 's" where
  "withExponentialBackoff fn setTimeout maxRetries s = backoff_loop fn setTimeout maxRetries 0 s"

text \<open>
  For stating what the executor does. When the loop is entered with counter \<open>i\<close> in state
  \<open>s\<close> and every attempt so far has failed, \<open>attempt_state_from\<close> is the state in which
  the \<open>k\<close>-th attempt from there starts (each earlier one was followed by its suspension),
  \<open>attempt_result_from\<close> is the settled result of that attempt, and \<open>attempts_trace_from\<close>
  lists the events of \<open>n\<close> attempts of which all but the last are followed by their
  suspension. The executor enters the loop with counter 0.
\<close>

fun attempt_state_from ::
  "('s \<Rightarrow> ('e + 'a) \<times> 's) \<Rightarrow> (int \<Rightarrow> 's \<Rightarrow> 's) \<Rightarrow> nat \<Rightarrow> 's \<Rightarrow> nat \<Rightarrow> 's" where
  "attempt_state_from fn setTimeout i s 0 = s"
| "attempt_state_from fn setTimeout i s (Suc k) =
     setTimeout (2 ^ (i + k) * 1000) (snd (fn (attempt_state_from fn setTimeout i s k)))"

definition attempt_result_from ::
  "('s \<Rightarrow> ('e + 'a) \<times> 's) \<Rightarrow> (int \<Rightarrow> 's \<Rightarrow> 's) \<Rightarrow> nat \<Rightarrow> 's \<Rightarrow> nat \<Rightarrow> 'e + 'a" where
  "attempt_result_from fn setTimeout i s k = fst (fn (attempt_state_from fn setTimeout i s k))"

definition failed_attempt_from ::
  "('s \<Rightarrow> ('e + 'a) \<times> 's) \<Rightarrow> (int \<Rightarrow> 's \<Rightarrow> 's) \<Rightarrow> nat \<Rightarrow> 's \<Rightarrow> nat
     \<Rightarrow> ('e, 'a) backoff_event list" where
  "failed_attempt_from fn setTimeout i s k =
     [Attempt (int (i + k)) (attempt_result_from fn setTimeout i s k), Timeout (2 ^ (i + k) * 1000)]"

definition attempts_trace_from ::
  "('s \<Rightarrow> ('e + 'a) \<times> 's) \<Rightarrow> (int \<Rightarrow> 's \<Rightarrow> 's) \<Rightarrow> nat \<Rightarrow> 's \<Rightarrow> nat
     \<Rightarrow> ('e, 'a) backoff_event list" where
  "attempts_trace_from fn setTimeout i s n =
     concat (map (failed_attempt_from fn setTimeout i s) [0..<n - 1])
       @ [Attempt (int (i + (n - 1))) (attempt_result_from fn setTimeout i s (n - 1))]"

definition attempt_state ::
  "('s \<Rightarrow> ('e + 'a) \<times> 's) \<Rightarrow> (int \<Rightarrow> 's \<Rightarrow> 's) \<Rightarrow> 's \<Rightarrow> nat \<Rightarrow> 's" where
  "attempt_state fn setTimeout s k = attempt_state_from fn setTimeout 0 s k"

definition attempt_result ::
  "('s \<Rightarrow> ('e + 'a) \<times> 's) \<Rightarrow> (int \<Rightarrow> 's \<Rightarrow> 's) \<Rightarrow> 's \<Rightarrow> nat \<Rightarrow> 'e + 'a" where
  "attempt_result fn setTimeout s k = attempt_result_from fn setTimeout 0 s k"

definition attempts_trace ::
  "('s \<Rightarrow> ('e + 'a) \<times> 's) \<Rightarrow> (int \<Rightarrow> 's \<Rightarrow> 's) \<Rightarrow> 's \<Rightarrow> nat \<Rightarrow> ('e, 'a) backoff_event list" where
  "attempts_trace fn setTimeout s n = attempts_trace_from fn setTimeout 0 s n"

definition settled :: "'e + 'a \<Rightarrow> 'e + 'a option" where
  "settled r = (case r of Inl error \<Rightarrow> Inl error | Inr v \<Rightarrow> Inr (Some v))"

section \<open>Strings\<close>

text \<open>
  A JavaScript string is modelled as the list of bytes of its UTF-8 encoding: ASCII
  characters are themselves, and the few non-ASCII characters of the source's literals are
  written as their bytes. Template literals of the source are copied with their line breaks
  and indentation. White space and line terminators are the ASCII ones (the model does not
  cover the non-ASCII spaces and the separators U+2028 and U+2029 that JavaScript also
  recognises).
\<close>

definition startsWith :: "string \<Rightarrow> string \<Rightarrow> bool" where
  "startsWith s p = (take (length p) s = p)"

definition is_line_terminator :: "char \<Rightarrow> bool" where
  "is_line_terminator c = (c = CHR 0x0A \<or> c = CHR 0x0D)"

definition is_white_space :: "char \<Rightarrow> bool" where
  "is_white_space c =
     (c = CHR 0x09 \<or> c = CHR 0x0A \<or> c = CHR 0x0B \<or> c = CHR 0x0C \<or> c = CHR 0x0D \<or> c = CHR 0x20)"

definition trim :: "string \<Rightarrow> string" where
  "trim s = rev (dropWhile is_white_space (rev (dropWhile is_white_space s)))"

text \<open>\<open>indexOf_from s p i\<close> is the index of the first occurrence of \<open>p\<close> in \<open>s\<close>, counted
  from \<open>i\<close> for the head of \<open>s\<close>; \<open>lastIndexOf_from\<close> that of the last one;
  \<open>occurrences\<close> counts the positions at which \<open>p\<close> occurs.\<close>

fun indexOf_from :: "string \<Rightarrow> string \<Rightarrow> nat \<Rightarrow> nat option" where
  "indexOf_from [] p i = (if p = [] then Some i else None)"
| "indexOf_from (c # cs) p i =
     (if startsWith (c # cs) p then Some i else indexOf_from cs p (Suc i))"

fun lastIndexOf_from :: "string \<Rightarrow> string \<Rightarrow> nat \<Rightarrow> nat option" where
  "lastIndexOf_from [] p i = (if p = [] then Some i else None)"
| "lastIndexOf_from (c # cs) p i =
     (case lastIndexOf_from cs p (Suc i) of
        Some j \<Rightarrow> Some j
      | None \<Rightarrow> if startsWith (c # cs) p then Some i else None)"

definition indexOf :: "string \<Rightarrow> string \<Rightarrow> nat option" where
  "indexOf s p = indexOf_from s p 0"


text \<open>\<open>s.split(sep)\<close> for a separator of one character, and \<open>xs[i]\<close>, which is
  \<open>undefined\<close> (\<open>None\<close>) out of range.\<close>

fun split_from :: "char \<Rightarrow> string \<Rightarrow> string \<Rightarrow> string list" where
  "split_from sep cur [] = [rev cur]"
| "split_from sep cur (c # cs) =
     (if c = sep then rev cur # split_from sep [] cs else split_from sep (c # cur) cs)"

definition split :: "string \<Rightarrow> char \<Rightarrow> string list" where
  "split s sep = split_from sep [] s"

definition at_index :: "'a list \<Rightarrow> nat \<Rightarrow> 'a option" where
  "at_index xs i = (if i < length xs then Some (xs ! i) else None)"

text \<open>Numbers in template literals: the decimal digits of a count, and of an integer
  field of a response, which prints as \<open>undefined\<close> when the field is absent.\<close>

definition digit_char :: "nat \<Rightarrow> char" where
  "digit_char d = ''0123456789'' ! d"

function show_nat :: "nat \<Rightarrow> string" where
  "show_nat n = (if n < 10 then [digit_char n] else show_nat (n div 10) @ [digit_char (n mod 10)])"
  by pat_completeness auto
termination
  by (relation "measure id") auto

declare show_nat.simps [simp del]

definition show_int :: "int \<Rightarrow> string" where
  "show_int i = (if i < 0 then ''-'' @ show_nat (nat (- i)) else show_nat (nat i))"

definition show_optional_int :: "int option \<Rightarrow> string" where
  "show_optional_int x = (case x of None \<Rightarrow> ''undefined'' | Some i \<Rightarrow> show_int i)"

section \<open>The markdown transform (\<open>simpleMarkdownToHtml\<close>, script.js lines 32-50)\<close>

text \<open>
  Each \<open>replace\<close> of the chain is one function from text to text, applied in the source's
  order.

  \<^item> The patterns \<open>/^### (.+)$/gm\<close> and their like are anchored at both ends of a line and
    \<open>.\<close> matches no line terminator, so they rewrite a whole line that starts with the
    marker and has at least one more character: \<open>map_segments\<close> applies a function to each
    segment between separators and keeps the separators, \<open>replace_line_prefix\<close> rewrites
    one line. \<open>/^---$/gm\<close> rewrites a line that is exactly \<open>---\<close>.
  \<^item> \<open>/(<li>.*<\/li>\n?)+/gs\<close>: with the \<open>s\<close> flag the greedy \<open>.*\<close> runs over line
    breaks, so the match starts at the first \<open><li>\<close> and ends at the last \<open></li>\<close> of the
    text that starts after it, plus a newline if one follows; nothing is left for a second
    match. The replacement wraps the match (\<open>$&\<close>).
  \<^item> \<open>/\*\*(.+?)\*\*/g\<close> and \<open>/\*(.+?)\*/g\<close>: scanning from the left, at a delimiter the
    lazy group takes the fewest characters, at least one and none a line terminator, up to
    the next delimiter (\<open>lazy_capture\<close>); the scan goes on after the match. The counter of
    \<open>replace_delimited\<close> is the number of characters of a match still to skip.
  \<^item> The last step splits at \<open>\n\<close>, wraps the lines that are not blank and do not start
    with \<open><\<close>, and joins with \<open>\n\<close>.
\<close>

fun map_segments :: "(char \<Rightarrow> bool) \<Rightarrow> (string \<Rightarrow> string) \<Rightarrow> string \<Rightarrow> string \<Rightarrow> string" where
  "map_segments sep f cur [] = f (rev cur)"
| "map_segments sep f cur (c # cs) =
     (if sep c then f (rev cur) @ c # map_segments sep f [] cs
      else map_segments sep f (c # cur) cs)"

definition replace_line_prefix :: "string \<Rightarrow> string \<Rightarrow> string \<Rightarrow> string \<Rightarrow> string" where
  "replace_line_prefix marker opening closing line =
     (if startsWith line marker \<and> length marker < length line
      then opening @ drop (length marker) line @ closing else line)"

definition replace_whole_line :: "string \<Rightarrow> string \<Rightarrow> string \<Rightarrow> string" where
  "replace_whole_line pat new line = (if line = pat then new else line)"

definition wrap_list_items :: "string \<Rightarrow> string" where
  \<open>wrap_list_items text =
     (case indexOf_from text ''<li>'' 0 of
        None \<Rightarrow> text
      | Some p \<Rightarrow>
          (case lastIndexOf_from (drop (p + 4) text) ''</li>'' (p + 4) of
             None \<Rightarrow> text
           | Some q \<Rightarrow>
               (let e = (if startsWith (drop (q + 5) text) [CHR 0x0A] then q + 6 else q + 5)
                in take p text @ ''<ul class="list-disc my-2">'' @ take (e - p) (drop p text)
                     @ ''</ul>'' @ drop e text)))\<close>

fun lazy_capture :: "string \<Rightarrow> string \<Rightarrow> string \<Rightarrow> string option" where
  "lazy_capture d acc [] = None"
| "lazy_capture d acc (c # cs) =
     (if is_line_terminator c then None
      else if startsWith cs d then Some (rev (c # acc))
      else lazy_capture d (c # acc) cs)"

fun replace_delimited :: "string \<Rightarrow> string \<Rightarrow> string \<Rightarrow> nat \<Rightarrow> string \<Rightarrow> string" where
  "replace_delimited d opening closing skip [] = []"
| "replace_delimited d opening closing (Suc skip) (c # cs) =
     replace_delimited d opening closing skip cs"
| "replace_delimited d opening closing 0 (c # cs) =
     (if startsWith (c # cs) d then
        (case lazy_capture d [] (drop (length d) (c # cs)) of
           Some captured \<Rightarrow>
             opening @ captured @ closing
               @ replace_delimited d opening closing (length d + length captured + length d - 1) cs
         | None \<Rightarrow> c # replace_delimited d opening closing 0 cs)
      else c # replace_delimited d opening closing 0 cs)"

definition wrap_paragraph :: "string \<Rightarrow> string" where
  \<open>wrap_paragraph line =
     (if trim line \<noteq> [] \<and> \<not> startsWith line ''<''
      then ''<p class="mb-2">'' @ line @ ''</p>'' else line)\<close>

definition simpleMarkdownToHtml :: "string \<Rightarrow> string" where
  \<open>simpleMarkdownToHtml text =
     (let t1 = map_segments is_line_terminator
                 (replace_line_prefix ''### '' ''<h3 class="text-xl font-semibold mt-4 mb-2">'' ''</h3>'') [] text;
          t2 = map_segments is_line_terminator
                 (replace_line_prefix ''## '' ''<h2 class="text-2xl font-bold mt-6 mb-3 text-blue-800">'' ''</h2>'') [] t1;
          t3 = map_segments is_line_terminator
                 (replace_line_prefix ''# '' ''<h1 class="text-3xl font-extrabold mt-8 mb-4">'' ''</h1>'') [] t2;
          t4 = map_segments is_line_terminator
                 (replace_line_prefix ''* '' ''<li class="ml-6">'' ''</li>'') [] t3;
          t5 = wrap_list_items t4;
          t6 = map_segments is_line_terminator
                 (replace_whole_line ''---'' ''<hr class="border-t-2 border-gray-200 my-6"/>'') [] t5;
          t7 = replace_delimited ''**'' ''<strong>'' ''</strong>'' 0 t6;
          t8 = replace_delimited ''*'' ''<em>'' ''</em>'' 0 t7
      in map_segments (\<lambda>c. c = CHR 0x0A) wrap_paragraph [] t8)\<close>

section \<open>The encoder (\<open>fileToBase64\<close>, script.js lines 9-16)\<close>

text \<open>
  A selected file has a name, a media type and its bytes. \<open>FileReader.readAsDataURL\<close>
  belongs to the browser: it is a parameter, \<open>Inl\<close> for the error event and \<open>Inr\<close> for
  the text of \<open>reader.result\<close>. The promise rejects with the error event, or resolves with
  \<open>reader.result.split(',')[1]\<close>, which is \<open>undefined\<close> (\<open>None\<close>) when the text has no
  comma. Events record what a run does to the page and to the outside, in order; reading a
  file is one of them.
\<close>

record File =
  fileName :: string
  fileType :: string
  fileBytes :: string

datatype form_value = FileEntry File | TextEntry string

datatype request_body = FormDataBody "(string \<times> form_value) list" | StringBody string

record request =
  url :: string
  http_method :: string
  headers :: "(string \<times> string) list"
  body :: request_body

datatype element = RecipeContent | RecipeButton | ButtonText

datatype event =
    SetInnerHTML element string
  | SetTextContent element string
  | SetDisabled element bool
  | Fetch request
  | Delay int
  | ConsoleError string
  | ReadAsDataURL File

definition fileToBase64 ::
  "(File \<Rightarrow> 'x + string) \<Rightarrow> File \<Rightarrow> ('x + string option) \<times> event list" where
  "fileToBase64 readAsDataURL f =
     ((case readAsDataURL f of
         Inl errorEvent \<Rightarrow> Inl errorEvent
       | Inr dataUrl \<Rightarrow> Inr (at_index (split dataUrl (CHR '','')) 1)),
      [ReadAsDataURL f])"

section \<open>Responses and markup of the pipeline\<close>

text \<open>
  The body of a response is typed as the external interface gives it: the fields the code
  reads, each absent (\<open>None\<close>, which also stands for \<open>null\<close>) or present; an absent
  \<open>success\<close> is \<open>False\<close>. \<open>response.json()\<close> rejects with an error message (\<open>Inl\<close>)
  or resolves with the body. \<open>fetch\<close> rejects with an error message or resolves with a
  response, and changes the state of the outside world.
\<close>

record recipe =
  title :: string
  recipe_ingredients :: "string list option"

record payload =
  success :: bool
  ingredients :: "string list option"
  recipes :: "recipe list option"
  total_found :: "int option"
  error :: "string option"

record response =
  ok :: bool
  status :: nat
  statusText :: string
  json :: "string + payload"

definition empty_object :: payload where
  "empty_object = \<lparr>success = False, ingredients = None, recipes = None, total_found = None, error = None\<rparr>"

text \<open>\<open>x || fallback\<close> for an optional string: an absent and an empty string are falsy.\<close>

definition or_else :: "string option \<Rightarrow> string \<Rightarrow> string" where
  "or_else x fallback = (case x of None \<Rightarrow> fallback | Some s \<Rightarrow> if s = [] then fallback else s)"

definition API_URL :: "string" where
  \<open>API_URL =
     ''https://ingredient-analyzer-beta.vercel.app/api/analyze''\<close>

definition recipesUrl :: "string" where
  \<open>recipesUrl =
     ''http://localhost:5000/get_recipes''\<close>

definition validation_html :: "string" where
  \<open>validation_html =
     ''<p class="text-red-600 font-medium">'' @ [CHR 0xE2, CHR 0x9A, CHR 0xA0] @ [CHR 0xEF, CHR 0xB8, CHR 0x8F] @ '' Please enter a prompt or upload an image.</p>''\<close>

definition analyzing_button_html :: "string" where
  \<open>analyzing_button_html =
     ''Analyzing<span class="loading-dot">.</span><span class="loading-dot">.</span><span class="loading-dot">.</span>''\<close>

definition analyzing_html :: "string" where
  \<open>analyzing_html =
     ''<div class="text-center py-8"><p class="text-lg text-blue-600">'' @ [CHR 0xF0, CHR 0x9F, CHR 0x94, CHR 0x8D] @ '' Analyzing ingredients...</p></div>''\<close>

definition no_ingredients_html :: "string" where
  \<open>no_ingredients_html =
     ''<p class="text-yellow-600">No ingredients detected. Try a different image or prompt.</p>''\<close>

definition ingredient_item :: "string \<Rightarrow> string" where
  \<open>ingredient_item ingredient =
     ''<li class="py-2 px-3 bg-gray-50 rounded">''
       @ ingredient
       @ ''</li>''\<close>

definition detected_html :: "string list \<Rightarrow> string \<Rightarrow> string" where
  \<open>detected_html ingredientsList ingredientsHTML =
     ''
                <div class="space-y-4">
                    <h3 class="text-xl font-semibold text-gray-800">Detected Ingredients (''
       @ show_nat (length ingredientsList)
       @ ''):</h3>
                    <ul class="space-y-2">
                        ''
       @ ingredientsHTML
       @ ''
                    </ul>
                    <p class="text-blue-600 font-medium">Finding recipes...</p>
                </div>
            ''\<close>

definition finding_button_html :: "string" where
  \<open>finding_button_html =
     ''Finding Recipes <span class="loading-dot"></span><span class="loading-dot"></span><span class="loading-dot"></span>''\<close>

definition no_recipes_html :: "string list \<Rightarrow> string \<Rightarrow> string" where
  \<open>no_recipes_html ingredientsList ingredientsHTML =
     ''
                        <div class="space-y-4">
                            <h3 class="text-xl font-semibold text-gray-800">Detected Ingredients (''
       @ show_nat (length ingredientsList)
       @ ''):</h3>
                            <ul class="space-y-2">
                                ''
       @ ingredientsHTML
       @ ''
                            </ul>
                            <p class="text-yellow-600 font-medium mt-4">No recipes found matching your ingredients. Try adding more common ingredients!</p>
                        </div>
                    ''\<close>

definition recipe_ingredient_item :: "string \<Rightarrow> string" where
  \<open>recipe_ingredient_item ing =
     ''<li class="text-sm text-gray-600">'' @ [CHR 0xE2, CHR 0x80, CHR 0xA2] @ '' ''
       @ ing
       @ ''</li>''\<close>

definition more_item :: "nat \<Rightarrow> string" where
  \<open>more_item moreCount =
     ''<li class="text-sm text-gray-500 italic">+ ''
       @ show_nat moreCount
       @ '' more ingredients</li>''\<close>

definition recipe_card :: "nat \<times> recipe \<Rightarrow> string" where
  \<open>recipe_card entry =
     (let idx = fst entry; recipe = snd entry;
          recipeIngredients = (case recipe_ingredients recipe of None \<Rightarrow> [] | Some xs \<Rightarrow> xs);
          ingredientsListHTML = concat (map recipe_ingredient_item (take 8 recipeIngredients));
          moreCount = (if length recipeIngredients > 8 then length recipeIngredients - 8 else 0)
      in ''
                            <div class="border border-gray-200 rounded-lg p-4 bg-white shadow-sm">
                                <h4 class="text-lg font-semibold text-blue-700 mb-2">''
       @ show_nat (idx + 1)
       @ ''. ''
       @ title recipe
       @ ''</h4>
                                <ul class="space-y-1">
                                    ''
       @ ingredientsListHTML
       @ ''
                                    ''
       @ (if moreCount > 0 then more_item moreCount else [])
       @ ''
                                </ul>
                            </div>
                        '')\<close>

definition recipes_html :: "string list \<Rightarrow> string \<Rightarrow> payload \<Rightarrow> string \<Rightarrow> string" where
  \<open>recipes_html ingredientsList ingredientsHTML recipesResult recipesHTML =
     ''
                        <div class="space-y-4">
                            <h3 class="text-xl font-semibold text-gray-800">Your Ingredients (''
       @ show_nat (length ingredientsList)
       @ ''):</h3>
                            <ul class="space-y-2 mb-4">
                                ''
       @ ingredientsHTML
       @ ''
                            </ul>
                            <h3 class="text-xl font-semibold text-green-700">Top 5 Recipes (from ''
       @ show_optional_int (total_found recipesResult)
       @ '' matches):</h3>
                            <div class="space-y-3">
                                ''
       @ recipesHTML
       @ ''
                            </div>
                        </div>
                    ''\<close>

definition error_html :: "string \<Rightarrow> string" where
  \<open>error_html message =
     ''
            <div class="text-red-600 p-4 bg-red-50 rounded-lg">
                <p class="font-medium mb-2">'' @ [CHR 0xE2, CHR 0x9D, CHR 0x8C] @ '' Error: ''
       @ message
       @ ''</p>
                <p class="text-sm">Troubleshooting tips:</p>
                <ul class="text-sm list-disc ml-4 mt-1">
                    <li>Make sure your Vercel backend is deployed</li>
                    <li>Check that API_URL points to the correct endpoint</li>
                    <li>Verify CORS is configured correctly in your backend</li>
                    <li>Check browser console for detailed error messages</li>
                </ul>
            </div>
        ''\<close>

section \<open>The pipeline controller (\<open>getRecipes\<close>, script.js lines 67-225)\<close>

text \<open>
  \<open>fetch\<close> and the timer are parameters over the state \<open>'w\<close> of the outside world. A run
  returns its events in order and the final state of the world. A thrown error is the
  message the \<open>catch\<close> block prints.
\<close>

definition analyze_request :: "string \<Rightarrow> File option \<Rightarrow> request" where
  \<open>analyze_request prompt imageFile =
     (let formData =
            (case imageFile of Some f \<Rightarrow> [(''image'', FileEntry f)] | None \<Rightarrow> [])
              @ (if prompt \<noteq> [] then [(''prompt'', TextEntry prompt)] else [])
      in \<lparr>url = API_URL, http_method = ''POST'', headers = [], body = FormDataBody formData\<rparr>)\<close>

text \<open>\<open>JSON.stringify({})\<close> is the text \<open>{}\<close>.\<close>

definition recipes_request :: request where
  \<open>recipes_request =
     \<lparr>url = recipesUrl, http_method = ''POST'',
      headers = [(''Content-Type'', ''application/json'')],
      body = StringBody ''{}''\<rparr>\<close>

fun backoff_to_event :: "request \<Rightarrow> (string, response) backoff_event \<Rightarrow> event" where
  "backoff_to_event r (Attempt i res) = Fetch r"
| "backoff_to_event r (Timeout d) = Delay d"

text \<open>The part of the \<open>try\<close> block from line 136 on. The executor is called with its
  default of 3 attempts; reading \<open>ok\<close> of an \<open>undefined\<close> result would throw a
  \<open>TypeError\<close>.\<close>

definition find_recipes ::
  "(request \<Rightarrow> 'w \<Rightarrow> (string + response) \<times> 'w) \<Rightarrow> (int \<Rightarrow> 'w \<Rightarrow> 'w) \<Rightarrow> string list \<Rightarrow> string \<Rightarrow> 'w
     \<Rightarrow> (string + unit) \<times> event list \<times> 'w" where
  \<open>find_recipes fetch setTimeout ingredientsList ingredientsHTML w =
     (case withExponentialBackoff (fetch recipes_request) setTimeout 3 w of
        (settledResponse, attempts, w2) \<Rightarrow>
          (let evs = map (backoff_to_event recipes_request) attempts in
           case settledResponse of
             Inl message \<Rightarrow> (Inl message, evs, w2)
           | Inr None \<Rightarrow>
               (Inl ''Cannot read properties of undefined (reading 'ok')'', evs, w2)
           | Inr (Some recipesResponse) \<Rightarrow>
               if \<not> ok recipesResponse then
                 (Inl (''Recipe fetch failed: '' @ statusText recipesResponse), evs, w2)
               else
                 (case json recipesResponse of
                    Inl message \<Rightarrow> (Inl message, evs, w2)
                  | Inr recipesResult \<Rightarrow>
                      if success recipesResult \<and> recipes recipesResult \<noteq> None then
                        (let recipeList = the (recipes recipesResult) in
                         if length recipeList = 0 then
                           (Inr (),
                            evs @ [SetInnerHTML RecipeContent
                                     (no_recipes_html ingredientsList ingredientsHTML)],
                            w2)
                         else
                           (let recipesHTML =
                                  concat (map recipe_card (enumerate 0 recipeList))
                            in (Inr (),
                                evs @ [SetInnerHTML RecipeContent
                                         (recipes_html ingredientsList ingredientsHTML
                                            recipesResult recipesHTML)],
                                w2)))
                      else
                        (Inl (or_else (error recipesResult) ''Failed to get recipes''), evs, w2))))\<close>

text \<open>The \<open>try\<close> block, lines 96-204.\<close>

definition analyze ::
  "(request \<Rightarrow> 'w \<Rightarrow> (string + response) \<times> 'w) \<Rightarrow> (int \<Rightarrow> 'w \<Rightarrow> 'w) \<Rightarrow> request \<Rightarrow> 'w
     \<Rightarrow> (string + unit) \<times> event list \<times> 'w" where
  \<open>analyze fetch setTimeout req w =
     (case fetch req w of
        (Inl message, w1) \<Rightarrow> (Inl message, [Fetch req], w1)
      | (Inr response, w1) \<Rightarrow>
          if \<not> ok response then
            (let errorData = (case json response of Inl parseError \<Rightarrow> empty_object | Inr d \<Rightarrow> d)
             in (Inl (or_else (error errorData)
                        (''Server error: '' @ show_nat (status response) @ '' ''
                           @ statusText response)),
                 [Fetch req], w1))
          else
            (case json response of
               Inl message \<Rightarrow> (Inl message, [Fetch req], w1)
             | Inr result \<Rightarrow>
                 if success result \<and> ingredients result \<noteq> None then
                   (let ingredientsList = the (ingredients result) in
                    if length ingredientsList = 0 then
                      (Inr (), [Fetch req, SetInnerHTML RecipeContent no_ingredients_html], w1)
                    else
                      (let ingredientsHTML = concat (map ingredient_item ingredientsList) in
                       case find_recipes fetch setTimeout ingredientsList ingredientsHTML w1 of
                         (completion, evs, w2) \<Rightarrow>
                           (completion,
                            [Fetch req,
                             SetInnerHTML RecipeContent (detected_html ingredientsList ingredientsHTML),
                             SetInnerHTML ButtonText finding_button_html] @ evs,
                            w2)))
                 else
                   (Inl (or_else (error result) ''Unknown error from backend''), [Fetch req], w1)))\<close>

definition getRecipes ::
  "(request \<Rightarrow> 'w \<Rightarrow> (string + response) \<times> 'w) \<Rightarrow> (int \<Rightarrow> 'w \<Rightarrow> 'w) \<Rightarrow> string \<Rightarrow> File option \<Rightarrow> 'w
     \<Rightarrow> event list \<times> 'w" where
  \<open>getRecipes fetch setTimeout promptValue imageFile w =
     (let prompt = trim promptValue in
      if prompt = [] \<and> imageFile = None then
        ([SetInnerHTML RecipeContent validation_html], w)
      else
        (case analyze fetch setTimeout (analyze_request prompt imageFile) w of
           (completion, evs, w') \<Rightarrow>
             ([SetDisabled RecipeButton True,
               SetInnerHTML ButtonText analyzing_button_html,
               SetInnerHTML RecipeContent analyzing_html]
                @ evs
                @ (case completion of
                     Inl message \<Rightarrow>
                       [ConsoleError message, SetInnerHTML RecipeContent (error_html message)]
                   | Inr u \<Rightarrow> [])
                @ [SetDisabled RecipeButton False, SetTextContent ButtonText ''Get Recipes''],
              w')))\<close>

section \<open>Reading a run\<close>

text \<open>The page as far as a run writes it, the page after a list of events, and the
  requests a run sends, in order.\<close>

record page =
  recipeContent_innerHTML :: string
  recipeButton_disabled :: bool
  buttonText_content :: string

fun apply_event :: "page \<Rightarrow> event \<Rightarrow> page" where
  "apply_event p (SetInnerHTML RecipeContent h) = p\<lparr>recipeContent_innerHTML := h\<rparr>"
| "apply_event p (SetInnerHTML ButtonText h) = p\<lparr>buttonText_content := h\<rparr>"
| "apply_event p (SetTextContent ButtonText t) = p\<lparr>buttonText_content := t\<rparr>"
| "apply_event p (SetDisabled RecipeButton d) = p\<lparr>recipeButton_disabled := d\<rparr>"
| "apply_event p ev = p"

definition page_after :: "page \<Rightarrow> event list \<Rightarrow> page" where
  "page_after p evs = foldl apply_event p evs"

fun network_calls :: "event list \<Rightarrow> request list" where
  "network_calls [] = []"
| "network_calls (Fetch r # evs) = r # network_calls evs"
| "network_calls (ev # evs) = network_calls evs"

definition stage2_calls :: "event list \<Rightarrow> request list" where
  "stage2_calls evs = filter (\<lambda>r. url r = recipesUrl) (network_calls evs)"

fun is_file_read :: "event \<Rightarrow> bool" where
  "is_file_read (ReadAsDataURL f) = True"
| "is_file_read ev = False"

text \<open>The events that may occur between the detection request and the end of a run, and
  a text given by its lines, each ended by a line feed.\<close>

fun quiet :: "event \<Rightarrow> bool" where
  "quiet (Fetch r) = (r = recipes_request)"
| "quiet (Delay d) = True"
| "quiet (SetInnerHTML el h) = True"
| "quiet (ConsoleError m) = True"
| "quiet ev = False"


fun writes_disabled :: "event \<Rightarrow> bool" where
  "writes_disabled (SetDisabled el d) = True"
| "writes_disabled ev = False"

fun is_disabling :: "event \<Rightarrow> bool" where
  "is_disabling (SetDisabled RecipeButton d) = d"
| "is_disabling ev = False"

section \<open>Concrete runs\<close>

text \<open>
  Worlds for concrete runs: the state is the number of recipe-lookup requests received so
  far and the milliseconds waited. A scripted \<open>fetch\<close> answers the detection request with
  a fixed result and the \<open>n\<close>-th recipe-lookup request with the \<open>n\<close>-th result of a script.
\<close>

type_synonym world = "nat \<times> int"

definition clock_timer :: "int \<Rightarrow> world \<Rightarrow> world" where
  "clock_timer d w = (fst w, snd w + d)"

definition scripted_fetch ::
  "(string + response) \<Rightarrow> (nat \<Rightarrow> string + response) \<Rightarrow> request \<Rightarrow> world \<Rightarrow> (string + response) \<times> world" where
  "scripted_fetch detection lookup r w =
     (if url r = recipesUrl then (lookup (fst w), (Suc (fst w), snd w)) else (detection, w))"

definition json_response :: "payload \<Rightarrow> response" where
  "json_response p = \<lparr>ok = True, status = 200, statusText = ''OK'', json = Inr p\<rparr>"

definition unavailable_response :: response where
  "unavailable_response =
     \<lparr>ok = False, status = 503, statusText = ''Service Unavailable'', json = Inl ''Unexpected end of JSON input''\<rparr>"

definition detection_result :: "string list \<Rightarrow> payload" where
  "detection_result xs =
     \<lparr>success = True, ingredients = Some xs, recipes = None, total_found = None, error = None\<rparr>"

definition detected :: "string list \<Rightarrow> string + response" where
  "detected xs = Inr (json_response (detection_result xs))"

definition pancakes :: recipe where
  "pancakes = \<lparr>title = ''Pancakes'', recipe_ingredients = Some [''egg'', ''flour'', ''milk'']\<rparr>"

definition pancakes_result :: payload where
  "pancakes_result =
     \<lparr>success = True, ingredients = None, recipes = Some [pancakes], total_found = Some 1, error = None\<rparr>"

definition always_pancakes :: "nat \<Rightarrow> string + response" where
  "always_pancakes n = Inr (json_response pancakes_result)"

definition unavailable_once :: "nat \<Rightarrow> string + response" where
  "unavailable_once n = (if n = 0 then Inr unavailable_response else Inr (json_response pancakes_result))"

definition unreachable_twice :: "nat \<Rightarrow> string + response" where
  "unreachable_twice n = (if n < 2 then Inl ''Failed to fetch'' else Inr (json_response pancakes_result))"

definition never_reachable :: "nat \<Rightarrow> string + response" where
  "never_reachable n = Inl ''Failed to fetch''"

definition pancakes_page_html :: string where
  "pancakes_page_html =
     recipes_html [''egg'', ''flour''] (concat (map ingredient_item [''egg'', ''flour'']))
       pancakes_result (concat (map recipe_card (enumerate 0 [pancakes])))"

definition fridge_photo :: File where
  "fridge_photo = \<lparr>fileName = ''fridge.png'', fileType = ''image/png'', fileBytes = [CHR 0x89, CHR 0x50, CHR 0x4E, CHR 0x47]\<rparr>"

definition empty_file :: File where
  "empty_file = \<lparr>fileName = ''empty.png'', fileType = ''image/png'', fileBytes = []\<rparr>"

definition fridge_data_url :: "File \<Rightarrow> unit + string" where
  "fridge_data_url f = Inr (''data:'' @ fileType f @ '';base64,iVBORw=='')"

definition blank_page :: page where
  "blank_page = \<lparr>recipeContent_innerHTML = [], recipeButton_disabled = False, buttonText_content = ''Get Recipes''\<rparr>"

text \<open>An operation for the executor alone: it fails until it has been invoked three times
  and then returns the number of earlier invocations.\<close>

definition fails_thrice :: "world \<Rightarrow> (string + nat) \<times> world" where
  "fails_thrice w = (if fst w < 3 then Inl ''down'' else Inr (fst w), (Suc (fst w), snd w))"

section \<open>Properties of the backoff executor\<close>

lemma attempt_state_from_shift:
  "attempt_state_from fn st i s (Suc k) =
     attempt_state_from fn st (Suc i) (st (2 ^ i * 1000) (snd (fn s))) k"
  by (induction k) simp_all

lemma backoff_loop_stop:
  "maxRetries \<le> i \<Longrightarrow> backoff_loop fn st maxRetries i s = (Inr None, [], s)"
  by simp

lemma backoff_loop_success:
  "i < maxRetries \<Longrightarrow> fn s = (Inr v, s1) \<Longrightarrow>
     backoff_loop fn st maxRetries i s = (Inr (Some v), [Attempt i (Inr v)], s1)"
  by simp

lemma backoff_loop_last:
  "i < maxRetries \<Longrightarrow> fn s = (Inl e, s1) \<Longrightarrow> i = maxRetries - 1 \<Longrightarrow>
     backoff_loop fn st maxRetries i s = (Inl e, [Attempt i (Inl e)], s1)"
  by simp

lemma backoff_loop_retry:
  "i < maxRetries \<Longrightarrow> fn s = (Inl e, s1) \<Longrightarrow> i \<noteq> maxRetries - 1 \<Longrightarrow>
     backoff_loop fn st maxRetries i s =
       (case backoff_loop fn st maxRetries (i + 1) (st (2 ^ nat i * 1000) s1) of
          (r, evs, s2) \<Rightarrow> (r, Attempt i (Inl e) # Timeout (2 ^ nat i * 1000) # evs, s2))"
  by (simp add: Let_def)

lemma attempts_trace_from_one:
  "attempts_trace_from fn st i s (Suc 0) = [Attempt (int i) (fst (fn s))]"
  by (simp add: attempts_trace_from_def attempt_result_from_def)

lemma attempts_trace_from_Suc:
  assumes "1 \<le> n"
  shows "attempts_trace_from fn st i s (Suc n) =
     Attempt (int i) (fst (fn s)) # Timeout (2 ^ i * 1000)
       # attempts_trace_from fn st (Suc i) (st (2 ^ i * 1000) (snd (fn s))) n"
proof -
  obtain m where n: "n = Suc m" using assms by (cases n) auto
  have upt: "[0..<Suc m] = 0 # map Suc [0..<m]"
    by (simp add: upt_conv_Cons map_Suc_upt del: upt_Suc)
  have shiftf: "failed_attempt_from fn st i s \<circ> Suc =
      failed_attempt_from fn st (Suc i) (st (2 ^ i * 1000) (snd (fn s)))"
    by (rule ext)
      (simp add: failed_attempt_from_def attempt_result_from_def attempt_state_from_shift
        del: attempt_state_from.simps(2))
  show ?thesis
    unfolding attempts_trace_from_def n
    by (simp add: upt shiftf attempt_result_from_def attempt_state_from_shift
        failed_attempt_from_def[of fn st i s 0] del: attempt_state_from.simps(2) upt_Suc)
qed

lemma attempts_trace_from_count:
  "1 \<le> n \<Longrightarrow> length (filter is_Attempt (attempts_trace_from fn st i s n)) = n"
proof (induction n arbitrary: i s)
  case 0
  then show ?case by simp
next
  case (Suc n)
  show ?case
  proof (cases "n = 0")
    case True
    then show ?thesis by (simp add: attempts_trace_from_one)
  next
    case False
    then have n: "1 \<le> n" by simp
    show ?thesis using Suc.IH[OF n] by (simp add: attempts_trace_from_Suc[OF n])
  qed
qed

lemma backoff_loop_run:
  "int i < maxRetries \<Longrightarrow>
   \<exists>n. 1 \<le> n \<and> int i + int n \<le> maxRetries
     \<and> (\<forall>k<n - 1. isl (attempt_result_from fn st i s k))
     \<and> (isl (attempt_result_from fn st i s (n - 1)) \<longrightarrow> int i + int n = maxRetries)
     \<and> backoff_loop fn st maxRetries (int i) s =
         (settled (attempt_result_from fn st i s (n - 1)),
          attempts_trace_from fn st i s n,
          snd (fn (attempt_state_from fn st i s (n - 1))))"
proof (induction "nat (maxRetries - int i)" arbitrary: i s)
  case 0
  then show ?case by simp
next
  case (Suc d)
  obtain r s1 where fs: "fn s = (r, s1)" by (cases "fn s")
  show ?case
  proof (cases r)
    case (Inr v)
    have "backoff_loop fn st maxRetries (int i) s = (Inr (Some v), [Attempt (int i) (Inr v)], s1)"
      using Suc.prems fs Inr by (intro backoff_loop_success) simp_all
    then show ?thesis
      using Suc.prems fs Inr
      by (intro exI[of _ 1])
        (simp add: settled_def attempts_trace_from_one attempt_result_from_def)
  next
    case (Inl e)
    show ?thesis
    proof (cases "int i = maxRetries - 1")
      case True
      have "backoff_loop fn st maxRetries (int i) s = (Inl e, [Attempt (int i) (Inl e)], s1)"
        using Suc.prems fs Inl True by (intro backoff_loop_last) simp_all
      then show ?thesis
        using Suc.prems fs Inl True
        by (intro exI[of _ 1])
          (simp add: settled_def attempts_trace_from_one attempt_result_from_def)
    next
      case False
      let ?s' = "st (2 ^ i * 1000) s1"
      have lt: "int (Suc i) < maxRetries" using Suc.prems False by simp
      have d: "d = nat (maxRetries - int (Suc i))" using Suc.hyps(2) by simp
      from Suc.hyps(1)[OF d lt, of ?s'] obtain n where n:
        "1 \<le> n" "int (Suc i) + int n \<le> maxRetries"
        "\<forall>k<n - 1. isl (attempt_result_from fn st (Suc i) ?s' k)"
        "isl (attempt_result_from fn st (Suc i) ?s' (n - 1)) \<longrightarrow> int (Suc i) + int n = maxRetries"
        "backoff_loop fn st maxRetries (int (Suc i)) ?s' =
           (settled (attempt_result_from fn st (Suc i) ?s' (n - 1)),
            attempts_trace_from fn st (Suc i) ?s' n,
            snd (fn (attempt_state_from fn st (Suc i) ?s' (n - 1))))"
        by blast
      have sh: "\<And>k. attempt_state_from fn st i s (Suc k) = attempt_state_from fn st (Suc i) ?s' k"
        using fs by (simp add: attempt_state_from_shift del: attempt_state_from.simps(2))
      have shr: "\<And>k. attempt_result_from fn st i s (Suc k) = attempt_result_from fn st (Suc i) ?s' k"
        unfolding attempt_result_from_def sh ..
      have step: "backoff_loop fn st maxRetries (int i) s =
         (case backoff_loop fn st maxRetries (int i + 1) (st (2 ^ nat (int i) * 1000) s1) of
            (r, evs, s2) \<Rightarrow> (r, Attempt (int i) (Inl e) # Timeout (2 ^ nat (int i) * 1000) # evs, s2))"
        using Suc.prems fs Inl False by (intro backoff_loop_retry) simp_all
      have i1: "int i + 1 = int (Suc i)" by simp
      obtain m where m: "n = Suc m" using n(1) by (cases n) auto
      have run: "backoff_loop fn st maxRetries (int i) s =
          (settled (attempt_result_from fn st i s (Suc n - 1)),
           attempts_trace_from fn st i s (Suc n),
           snd (fn (attempt_state_from fn st i s (Suc n - 1))))"
        unfolding step i1 nat_int n(5) attempts_trace_from_Suc[OF n(1)]
        using fs Inl by (simp add: m sh shr del: attempt_state_from.simps(2))
      have fails: "\<forall>k<Suc n - 1. isl (attempt_result_from fn st i s k)"
      proof (intro allI impI)
        fix k assume k: "k < Suc n - 1"
        show "isl (attempt_result_from fn st i s k)"
        proof (cases k)
          case 0
          then show ?thesis using fs Inl by (simp add: attempt_result_from_def)
        next
          case (Suc k')
          then have "k' < n - 1" using k by simp
          then show ?thesis using n(3) Suc shr by simp
        qed
      qed
      have lastc: "isl (attempt_result_from fn st i s (Suc n - 1)) \<longrightarrow> int i + int (Suc n) = maxRetries"
        using n(4) shr by (auto simp: m algebra_simps)
      show ?thesis
        using n(1,2) fails lastc run by (intro exI[of _ "Suc n"]) simp
    qed
  qed
qed

text \<open>
  Claim C3. For every operation and every \<open>maxRetries \<ge> 1\<close> the executor makes some number
  \<open>n\<close> of attempts with \<open>1 \<le> n \<le> maxRetries\<close>, so it never invokes the operation more
  than \<open>maxRetries\<close> times. The attempts \<open>0 .. n - 2\<close> all failed, and each was followed
  by a suspension of exactly \<open>2 ^ i * 1000\<close> milliseconds (1000, 2000, 4000 for the attempts
  0, 1, 2) before the next attempt. The last attempt either succeeded, and the executor
  returns its value, which is that of the first successful attempt; or it failed, and then
  it was attempt \<open>maxRetries - 1\<close> and the executor throws its error unchanged, with no
  suspension after it.
\<close>

theorem withExponentialBackoff_contract:
  assumes "1 \<le> maxRetries"
  shows "\<exists>n. 1 \<le> n \<and> int n \<le> maxRetries
           \<and> (\<forall>k<n - 1. isl (attempt_result fn setTimeout s k))
           \<and> (isl (attempt_result fn setTimeout s (n - 1)) \<longrightarrow> int n = maxRetries)
           \<and> withExponentialBackoff fn setTimeout maxRetries s =
               (settled (attempt_result fn setTimeout s (n - 1)),
                attempts_trace fn setTimeout s n,
                snd (fn (attempt_state fn setTimeout s (n - 1))))
           \<and> length (filter is_Attempt (attempts_trace fn setTimeout s n)) = n"
proof -
  have "int 0 < maxRetries" using assms by simp
  from backoff_loop_run[OF this, of fn setTimeout s] obtain n where n:
    "1 \<le> n" "int 0 + int n \<le> maxRetries"
    "\<forall>k<n - 1. isl (attempt_result_from fn setTimeout 0 s k)"
    "isl (attempt_result_from fn setTimeout 0 s (n - 1)) \<longrightarrow> int 0 + int n = maxRetries"
    "backoff_loop fn setTimeout maxRetries (int 0) s =
       (settled (attempt_result_from fn setTimeout 0 s (n - 1)),
        attempts_trace_from fn setTimeout 0 s n,
        snd (fn (attempt_state_from fn setTimeout 0 s (n - 1))))"
    by blast
  show ?thesis
    using n attempts_trace_from_count[OF n(1), of fn setTimeout 0 s]
    by (intro exI[of _ n])
      (simp add: withExponentialBackoff_def attempt_result_def attempts_trace_def attempt_state_def)
qed

text \<open>An operation that fails three times, run with four attempts: the delays are 1000,
  2000 and 4000 milliseconds, the fourth attempt's value is returned, and the operation has
  been invoked four times.\<close>

lemma fails_thrice_run:
  "withExponentialBackoff fails_thrice clock_timer 4 (0, 0) =
     (Inr (Some 3),
      [Attempt 0 (Inl ''down''), Timeout 1000, Attempt 1 (Inl ''down''), Timeout 2000,
       Attempt 2 (Inl ''down''), Timeout 4000, Attempt 3 (Inr 3)],
      (4, 7000))"
  by (simp add: withExponentialBackoff_def fails_thrice_def clock_timer_def)

theorem withExponentialBackoff_contract_witness:
  "(1::int) \<le> 4 \<and>
   (\<exists>n. 1 \<le> n \<and> int n \<le> 4
      \<and> (\<forall>k<n - 1. isl (attempt_result fails_thrice clock_timer (0, 0) k))
      \<and> (isl (attempt_result fails_thrice clock_timer (0, 0) (n - 1)) \<longrightarrow> int n = 4)
      \<and> withExponentialBackoff fails_thrice clock_timer 4 (0, 0) =
          (settled (attempt_result fails_thrice clock_timer (0, 0) (n - 1)),
           attempts_trace fails_thrice clock_timer (0, 0) n,
           snd (fails_thrice (attempt_state fails_thrice clock_timer (0, 0) (n - 1))))
      \<and> length (filter is_Attempt (attempts_trace fails_thrice clock_timer (0, 0) n)) = n)"
  using withExponentialBackoff_contract[of 4 fails_thrice clock_timer "(0, 0)"] by simp

text \<open>
  Claim C10. Called with \<open>maxRetries\<close> equal to 0 or negative, the executor never invokes
  the operation (there is no event and the state is unchanged) and resolves with
  \<open>undefined\<close>; it does not throw.
\<close>

theorem withExponentialBackoff_nonpositive:
  "maxRetries \<le> 0 \<Longrightarrow> withExponentialBackoff fn setTimeout maxRetries s = (Inr None, [], s)"
  by (simp add: withExponentialBackoff_def)

theorem withExponentialBackoff_nonpositive_witness:
  "(0::int) \<le> 0 \<and> withExponentialBackoff fails_thrice clock_timer 0 (0, 0) = (Inr None, [], (0, 0))
   \<and> (- 2::int) \<le> 0 \<and> withExponentialBackoff fails_thrice clock_timer (- 2) (0, 0) = (Inr None, [], (0, 0))"
  using withExponentialBackoff_nonpositive[of 0 fails_thrice clock_timer "(0, 0)"]
    withExponentialBackoff_nonpositive[of "- 2" fails_thrice clock_timer "(0, 0)"]
  by simp

section \<open>Properties of the strings\<close>

lemma startsWith_Nil: "startsWith s [] = True"
  by (simp add: startsWith_def)

lemma startsWith_Nil_Cons: "startsWith [] (p # ps) = False"
  by (simp add: startsWith_def)

lemma startsWith_Cons: "startsWith (c # cs) (p # ps) = (if c = p then startsWith cs ps else False)"
  by (auto simp: startsWith_def)

lemmas startsWith_eval = startsWith_Nil startsWith_Nil_Cons startsWith_Cons










lemma trim_question: "trim ''what can I cook?'' = ''what can I cook?''"
  by (simp add: trim_def is_white_space_def)

lemma split_from_not_Nil: "split_from sep cur s \<noteq> []"
  by (induction s arbitrary: cur) auto

lemma split_from_no_sep: "sep \<notin> set pre \<Longrightarrow> split_from sep cur (pre @ sep # rest) = (rev cur @ pre) # split_from sep [] rest"
  by (induction pre arbitrary: cur) auto

lemma hd_split_from: "hd (split_from sep cur s) = rev cur @ takeWhile (\<lambda>c. c \<noteq> sep) s"
  by (induction s arbitrary: cur) auto

lemma split_second:
  "sep \<notin> set pre \<Longrightarrow> at_index (split (pre @ sep # rest) sep) 1 = Some (takeWhile (\<lambda>c. c \<noteq> sep) rest)"
proof -
  assume a: "sep \<notin> set pre"
  have ne: "split_from sep [] rest \<noteq> []" by (rule split_from_not_Nil)
  have "split (pre @ sep # rest) sep = pre # split_from sep [] rest"
    using split_from_no_sep[OF a, of "[]" rest] by (simp add: split_def)
  moreover have "split_from sep [] rest ! 0 = takeWhile (\<lambda>c. c \<noteq> sep) rest"
    using hd_split_from[of sep "[]" rest] ne by (simp add: hd_conv_nth)
  ultimately show ?thesis using ne by (simp add: at_index_def)
qed

section \<open>Properties of the pipeline: the shape of every run\<close>

lemma backoff_to_event_quiet: "quiet (backoff_to_event recipes_request b)"
  by (cases b) simp_all

lemma find_recipes_quiet:
  assumes "find_recipes fetch st il ih w = (c, evs, w')" and "ev \<in> set evs"
  shows "quiet ev"
proof -
  obtain r att w2 where run: "withExponentialBackoff (fetch recipes_request) st 3 w = (r, att, w2)"
    by (cases "withExponentialBackoff (fetch recipes_request) st 3 w")
  have "ev \<in> set (map (backoff_to_event recipes_request) att) \<or> (\<exists>h. ev = SetInnerHTML RecipeContent h)"
    using assms unfolding find_recipes_def run
    by (auto simp: Let_def split: sum.splits option.splits if_splits)
  then show ?thesis
    using backoff_to_event_quiet by auto
qed

lemma analyze_events:
  assumes "analyze fetch st req w = (c, evs, w')"
  shows "\<exists>mid. evs = Fetch req # mid \<and> (\<forall>ev\<in>set mid. quiet ev)"
proof -
  obtain r w1 where f: "fetch req w = (r, w1)" by (cases "fetch req w")
  show ?thesis
  proof (cases "\<exists>resp res. r = Inr resp \<and> ok resp \<and> json resp = Inr res \<and> success res
                  \<and> ingredients res \<noteq> None \<and> the (ingredients res) \<noteq> []")
    case True
    then obtain resp res where t: "r = Inr resp" "ok resp" "json resp = Inr res" "success res"
      "ingredients res \<noteq> None" "the (ingredients res) \<noteq> []" by blast
    let ?il = "the (ingredients res)"
    obtain c2 evs2 w2 where fr:
      "find_recipes fetch st ?il (concat (map ingredient_item ?il)) w1 = (c2, evs2, w2)"
      by (cases "find_recipes fetch st ?il (concat (map ingredient_item ?il)) w1")
    have "evs = Fetch req # SetInnerHTML RecipeContent (detected_html ?il (concat (map ingredient_item ?il)))
              # SetInnerHTML ButtonText finding_button_html # evs2"
      using assms t fr unfolding analyze_def f by (simp add: Let_def)
    then show ?thesis
      using find_recipes_quiet[OF fr] by auto
  next
    case False
    then have "evs = [Fetch req] \<or> evs = [Fetch req, SetInnerHTML RecipeContent no_ingredients_html]"
      using assms unfolding analyze_def f
      by (auto simp: Let_def split: sum.splits if_splits)
    then show ?thesis by auto
  qed
qed

lemma getRecipes_events:
  assumes "trim promptValue \<noteq> [] \<or> imageFile \<noteq> None"
  shows "\<exists>mid. fst (getRecipes fetch st promptValue imageFile w) =
           [SetDisabled RecipeButton True, SetInnerHTML ButtonText analyzing_button_html,
            SetInnerHTML RecipeContent analyzing_html,
            Fetch (analyze_request (trim promptValue) imageFile)]
             @ mid @ [SetDisabled RecipeButton False, SetTextContent ButtonText ''Get Recipes'']
         \<and> (\<forall>ev\<in>set mid. quiet ev)"
proof -
  let ?req = "analyze_request (trim promptValue) imageFile"
  obtain c evs w' where a: "analyze fetch st ?req w = (c, evs, w')"
    by (cases "analyze fetch st ?req w")
  from analyze_events[OF a] obtain mid where mid: "evs = Fetch ?req # mid" "\<forall>ev\<in>set mid. quiet ev"
    by blast
  let ?tail = "(case c of Inl message \<Rightarrow> [ConsoleError message, SetInnerHTML RecipeContent (error_html message)]
                 | Inr u \<Rightarrow> [])"
  have "fst (getRecipes fetch st promptValue imageFile w) =
           [SetDisabled RecipeButton True, SetInnerHTML ButtonText analyzing_button_html,
            SetInnerHTML RecipeContent analyzing_html, Fetch ?req]
             @ (mid @ ?tail) @ [SetDisabled RecipeButton False, SetTextContent ButtonText ''Get Recipes'']"
    using assms a mid(1) by (auto simp: getRecipes_def Let_def)
  moreover have "\<forall>ev\<in>set (mid @ ?tail). quiet ev"
    using mid(2) by (cases c) auto
  ultimately show ?thesis by blast
qed

lemma network_calls_append: "network_calls (xs @ ys) = network_calls xs @ network_calls ys"
  by (induction xs rule: network_calls.induct) simp_all

lemma quiet_network_calls:
  "\<forall>ev\<in>set mid. quiet ev \<Longrightarrow> r \<in> set (network_calls mid) \<Longrightarrow> r = recipes_request"
  by (induction mid rule: network_calls.induct) auto

lemma quiet_no_disabled_write: "\<forall>ev\<in>set mid. quiet ev \<Longrightarrow> filter writes_disabled mid = []"
proof (induction mid)
  case Nil
  show ?case by simp
next
  case (Cons ev mid)
  then show ?case by (cases ev) auto
qed

lemma quiet_no_file_read: "\<forall>ev\<in>set mid. quiet ev \<Longrightarrow> filter is_file_read mid = []"
proof (induction mid)
  case Nil
  show ?case by simp
next
  case (Cons ev mid)
  then show ?case by (cases ev) auto
qed

lemma page_after_append: "page_after p (xs @ ys) = page_after (page_after p xs) ys"
  by (simp add: page_after_def)

lemma urls_differ: "API_URL \<noteq> recipesUrl"
  by (simp add: API_URL_def recipesUrl_def)

section \<open>Properties of the pipeline: single paths\<close>

lemma backoff_first_attempt_resolves:
  "fn s = (Inr v, s1) \<Longrightarrow>
     withExponentialBackoff fn st 3 s = (Inr (Some v), [Attempt 0 (Inr v)], s1)"
  by (simp add: withExponentialBackoff_def)

lemma getRecipes_no_ingredients:
  assumes "trim promptValue \<noteq> [] \<or> imageFile \<noteq> None"
    and "fetch (analyze_request (trim promptValue) imageFile) w = (Inr response, wa)"
    and "ok response" and "json response = Inr result"
    and "success result" and "ingredients result = Some []"
  shows "getRecipes fetch st promptValue imageFile w =
     ([SetDisabled RecipeButton True, SetInnerHTML ButtonText analyzing_button_html,
       SetInnerHTML RecipeContent analyzing_html,
       Fetch (analyze_request (trim promptValue) imageFile),
       SetInnerHTML RecipeContent no_ingredients_html,
       SetDisabled RecipeButton False, SetTextContent ButtonText ''Get Recipes''], wa)"
  using assms by (auto simp: getRecipes_def analyze_def Let_def)

lemma getRecipes_status_failure:
  assumes "trim promptValue \<noteq> [] \<or> imageFile \<noteq> None"
    and "fetch (analyze_request (trim promptValue) imageFile) w = (Inr response, wa)"
    and "ok response" and "json response = Inr result"
    and "success result" and "ingredients result = Some il" and "il \<noteq> []"
    and "fetch recipes_request wa = (Inr recipesResponse, wb)" and "\<not> ok recipesResponse"
  shows "getRecipes fetch st promptValue imageFile w =
     ([SetDisabled RecipeButton True, SetInnerHTML ButtonText analyzing_button_html,
       SetInnerHTML RecipeContent analyzing_html,
       Fetch (analyze_request (trim promptValue) imageFile),
       SetInnerHTML RecipeContent (detected_html il (concat (map ingredient_item il))),
       SetInnerHTML ButtonText finding_button_html,
       Fetch recipes_request,
       ConsoleError (''Recipe fetch failed: '' @ statusText recipesResponse),
       SetInnerHTML RecipeContent (error_html (''Recipe fetch failed: '' @ statusText recipesResponse)),
       SetDisabled RecipeButton False, SetTextContent ButtonText ''Get Recipes''], wb)"
proof -
  have fr: "find_recipes fetch st il (concat (map ingredient_item il)) wa =
      (Inl (''Recipe fetch failed: '' @ statusText recipesResponse), [Fetch recipes_request], wb)"
    using assms(8,9) by (simp add: find_recipes_def backoff_first_attempt_resolves)
  have an: "analyze fetch st (analyze_request (trim promptValue) imageFile) w =
      (Inl (''Recipe fetch failed: '' @ statusText recipesResponse),
       [Fetch (analyze_request (trim promptValue) imageFile),
        SetInnerHTML RecipeContent (detected_html il (concat (map ingredient_item il))),
        SetInnerHTML ButtonText finding_button_html, Fetch recipes_request], wb)"
    using assms(2-7) by (simp add: analyze_def fr Let_def)
  show ?thesis
    using assms(1) by (auto simp: getRecipes_def an Let_def)
qed

lemma getRecipes_success:
  assumes "trim promptValue \<noteq> [] \<or> imageFile \<noteq> None"
    and "fetch (analyze_request (trim promptValue) imageFile) w = (Inr response, wa)"
    and "ok response" and "json response = Inr result"
    and "success result" and "ingredients result = Some il" and "il \<noteq> []"
    and "fetch recipes_request wa = (Inr recipesResponse, wb)" and "ok recipesResponse"
    and "json recipesResponse = Inr recipesResult"
    and "success recipesResult" and "recipes recipesResult = Some recipeList" and "recipeList \<noteq> []"
  shows "getRecipes fetch st promptValue imageFile w =
     ([SetDisabled RecipeButton True, SetInnerHTML ButtonText analyzing_button_html,
       SetInnerHTML RecipeContent analyzing_html,
       Fetch (analyze_request (trim promptValue) imageFile),
       SetInnerHTML RecipeContent (detected_html il (concat (map ingredient_item il))),
       SetInnerHTML ButtonText finding_button_html,
       Fetch recipes_request,
       SetInnerHTML RecipeContent
         (recipes_html il (concat (map ingredient_item il)) recipesResult
            (concat (map recipe_card (enumerate 0 recipeList)))),
       SetDisabled RecipeButton False, SetTextContent ButtonText ''Get Recipes''], wb)"
proof -
  have fr: "find_recipes fetch st il (concat (map ingredient_item il)) wa =
      (Inr (), [Fetch recipes_request,
                SetInnerHTML RecipeContent
                  (recipes_html il (concat (map ingredient_item il)) recipesResult
                     (concat (map recipe_card (enumerate 0 recipeList))))], wb)"
    using assms(8-13) by (simp add: find_recipes_def backoff_first_attempt_resolves)
  have an: "analyze fetch st (analyze_request (trim promptValue) imageFile) w =
      (Inr (),
       [Fetch (analyze_request (trim promptValue) imageFile),
        SetInnerHTML RecipeContent (detected_html il (concat (map ingredient_item il))),
        SetInnerHTML ButtonText finding_button_html, Fetch recipes_request,
        SetInnerHTML RecipeContent
          (recipes_html il (concat (map ingredient_item il)) recipesResult
             (concat (map recipe_card (enumerate 0 recipeList))))], wb)"
    using assms(2-7) by (simp add: analyze_def fr Let_def)
  show ?thesis
    using assms(1) by (auto simp: getRecipes_def an Let_def)
qed

section \<open>Concrete worlds\<close>

lemma scripted_fetch_detection:
  "scripted_fetch d l (analyze_request q img) w = (d, w)"
  by (simp add: scripted_fetch_def analyze_request_def urls_differ Let_def)

lemma scripted_fetch_lookup:
  "scripted_fetch d l recipes_request w = (l (fst w), (Suc (fst w), snd w))"
  by (simp add: scripted_fetch_def recipes_request_def)

lemma trim_empty: "trim [] = []"
  by (simp add: trim_def)

section \<open>Claims about the pipeline\<close>

text \<open>
  Claim C6, as the code has it. When the prompt is empty (or only white space) and no image
  file is selected, the run writes the validation message and does nothing else: it sends
  no request, neither the detection request nor the recipe lookup, and the world is
  unchanged. What the check looks at is whether a file is selected, not whether it has
  bytes.
\<close>

theorem validation_failed_without_network:
  "trim promptValue = [] \<Longrightarrow>
     getRecipes fetch setTimeout promptValue None w = ([SetInnerHTML RecipeContent validation_html], w)
     \<and> network_calls (fst (getRecipes fetch setTimeout promptValue None w)) = []
     \<and> recipeContent_innerHTML (page_after p (fst (getRecipes fetch setTimeout promptValue None w)))
           = validation_html"
  by (simp add: getRecipes_def page_after_def)

theorem validation_failed_without_network_witness:
  "trim [] = [] \<and>
   getRecipes (scripted_fetch (detected [''egg'']) always_pancakes) clock_timer [] None (0, 0)
     = ([SetInnerHTML RecipeContent validation_html], (0, 0))
   \<and> network_calls (fst (getRecipes (scripted_fetch (detected [''egg'']) always_pancakes)
         clock_timer [] None (0, 0))) = []
   \<and> recipeContent_innerHTML (page_after blank_page
         (fst (getRecipes (scripted_fetch (detected [''egg'']) always_pancakes) clock_timer [] None (0, 0))))
       = validation_html"
  using validation_failed_without_network[of "[]" "scripted_fetch (detected [''egg'']) always_pancakes"
      clock_timer "(0, 0)" blank_page]
  by (simp add: trim_empty page_after_def)

text \<open>The claim as the spec states it, with empty image bytes, fails on the run with an
  empty prompt and a selected file of zero bytes: the file is present for the check, the
  detection request is sent with the file in its body, and the page shows the answer to
  that request, not the validation message.\<close>

theorem empty_file_counterexample:
  "fileBytes empty_file = []
   \<and> network_calls (fst (getRecipes (scripted_fetch (detected []) always_pancakes) clock_timer
         [] (Some empty_file) (0, 0))) = [analyze_request [] (Some empty_file)]
   \<and> body (analyze_request [] (Some empty_file)) = FormDataBody [(''image'', FileEntry empty_file)]
   \<and> recipeContent_innerHTML (page_after blank_page
         (fst (getRecipes (scripted_fetch (detected []) always_pancakes) clock_timer
            [] (Some empty_file) (0, 0)))) = no_ingredients_html"
proof -
  have run: "getRecipes (scripted_fetch (detected []) always_pancakes) clock_timer
       [] (Some empty_file) (0, 0) =
     ([SetDisabled RecipeButton True, SetInnerHTML ButtonText analyzing_button_html,
       SetInnerHTML RecipeContent analyzing_html,
       Fetch (analyze_request (trim []) (Some empty_file)),
       SetInnerHTML RecipeContent no_ingredients_html,
       SetDisabled RecipeButton False, SetTextContent ButtonText ''Get Recipes''], (0, 0))"
    by (rule getRecipes_no_ingredients[where response = "json_response (detection_result [])"
          and result = "detection_result []"])
      (simp_all add: scripted_fetch_detection detected_def detection_result_def json_response_def)
  show ?thesis
    unfolding run
    by (simp add: trim_empty page_after_def analyze_request_def empty_file_def Let_def)
qed

text \<open>
  Claim C7. When the detection request is answered with a success status and a body with
  \<open>success\<close> true and an empty \<open>ingredients\<close> array, the run shows the
  no-ingredients message and ends: the detection request is the only request sent, and no
  recipe lookup is issued.
\<close>

theorem empty_ingredients_without_lookup:
  assumes "trim promptValue \<noteq> [] \<or> imageFile \<noteq> None"
    and "fetch (analyze_request (trim promptValue) imageFile) w = (Inr response, wa)"
    and "ok response" and "json response = Inr result"
    and "success result" and "ingredients result = Some []"
  shows "network_calls (fst (getRecipes fetch setTimeout promptValue imageFile w))
           = [analyze_request (trim promptValue) imageFile]
     \<and> stage2_calls (fst (getRecipes fetch setTimeout promptValue imageFile w)) = []
     \<and> recipeContent_innerHTML (page_after p (fst (getRecipes fetch setTimeout promptValue imageFile w)))
           = no_ingredients_html
     \<and> snd (getRecipes fetch setTimeout promptValue imageFile w) = wa"
proof -
  have run: "getRecipes fetch setTimeout promptValue imageFile w =
     ([SetDisabled RecipeButton True, SetInnerHTML ButtonText analyzing_button_html,
       SetInnerHTML RecipeContent analyzing_html,
       Fetch (analyze_request (trim promptValue) imageFile),
       SetInnerHTML RecipeContent no_ingredients_html,
       SetDisabled RecipeButton False, SetTextContent ButtonText ''Get Recipes''], wa)"
    using assms by (rule getRecipes_no_ingredients)
  show ?thesis
    unfolding run
    by (simp add: page_after_def stage2_calls_def analyze_request_def urls_differ Let_def)
qed

theorem empty_ingredients_without_lookup_witness:
  "trim ''what can I cook?'' \<noteq> []
   \<and> network_calls (fst (getRecipes (scripted_fetch (detected []) always_pancakes) clock_timer
         ''what can I cook?'' None (0, 0))) = [analyze_request ''what can I cook?'' None]
   \<and> stage2_calls (fst (getRecipes (scripted_fetch (detected []) always_pancakes) clock_timer
         ''what can I cook?'' None (0, 0))) = []
   \<and> recipeContent_innerHTML (page_after blank_page
         (fst (getRecipes (scripted_fetch (detected []) always_pancakes) clock_timer
            ''what can I cook?'' None (0, 0)))) = no_ingredients_html
   \<and> snd (getRecipes (scripted_fetch (detected []) always_pancakes) clock_timer
         ''what can I cook?'' None (0, 0)) = (0, 0)"
  using empty_ingredients_without_lookup[where promptValue = "''what can I cook?''"
      and imageFile = None and fetch = "scripted_fetch (detected []) always_pancakes"
      and w = "(0, 0)" and wa = "(0, 0)" and setTimeout = clock_timer and p = blank_page
      and response = "json_response (detection_result [])" and result = "detection_result []"]
  by (simp add: trim_question scripted_fetch_detection detected_def detection_result_def
      json_response_def)

text \<open>
  Claim C8. Every recipe-lookup request of every run is one and the same request, whose
  body is the text \<open>{}\<close>: for any two runs, whatever their prompts, images, worlds and
  detected ingredients, a lookup request of the one equals a lookup request of the other.
  The detected ingredients are not part of it.
\<close>

theorem lookup_request_is_fixed:
  assumes "ra \<in> set (stage2_calls (fst (getRecipes fetcha setTimeouta prompta imagea wa)))"
    and "rb \<in> set (stage2_calls (fst (getRecipes fetchb setTimeoutb promptb imageb wb)))"
  shows "ra = rb \<and> ra = recipes_request \<and> body ra = StringBody ''{}''"
proof -
  have fixed: "r = recipes_request"
    if "r \<in> set (stage2_calls (fst (getRecipes fetch st q img w)))"
    for r q img w and fetch :: "request \<Rightarrow> 'x \<Rightarrow> (string + response) \<times> 'x" and st
  proof (cases "trim q = [] \<and> img = None")
    case True
    then show ?thesis using that by (simp add: getRecipes_def stage2_calls_def)
  next
    case False
    then have "trim q \<noteq> [] \<or> img \<noteq> None" by simp
    from getRecipes_events[OF this, of fetch st w] obtain mid where
      mid: "fst (getRecipes fetch st q img w) =
              [SetDisabled RecipeButton True, SetInnerHTML ButtonText analyzing_button_html,
               SetInnerHTML RecipeContent analyzing_html, Fetch (analyze_request (trim q) img)]
              @ mid @ [SetDisabled RecipeButton False, SetTextContent ButtonText ''Get Recipes'']"
        and q: "\<forall>ev\<in>set mid. quiet ev"
      by blast
    have "url (analyze_request (trim q) img) \<noteq> recipesUrl"
      by (simp add: analyze_request_def urls_differ Let_def)
    then have "r \<in> set (network_calls mid)"
      using that unfolding mid stage2_calls_def by (simp add: network_calls_append)
    then show ?thesis using q by (rule quiet_network_calls[rotated])
  qed
  have "ra = recipes_request" using assms(1) by (rule fixed)
  moreover have "rb = recipes_request" using assms(2) by (rule fixed)
  ultimately show ?thesis by (simp add: recipes_request_def)
qed

text \<open>Two runs that reach the recipe lookup: a prompt alone, answered with two ingredients
  and then one recipe; and a photo alone, answered with one ingredient and then a 503 status.\<close>

lemma pancakes_run:
  "getRecipes (scripted_fetch (detected [''egg'', ''flour'']) always_pancakes) clock_timer
       ''what can I cook?'' None (0, 0) =
     ([SetDisabled RecipeButton True, SetInnerHTML ButtonText analyzing_button_html,
       SetInnerHTML RecipeContent analyzing_html,
       Fetch (analyze_request (trim ''what can I cook?'') None),
       SetInnerHTML RecipeContent
         (detected_html [''egg'', ''flour''] (concat (map ingredient_item [''egg'', ''flour'']))),
       SetInnerHTML ButtonText finding_button_html,
       Fetch recipes_request,
       SetInnerHTML RecipeContent
         (recipes_html [''egg'', ''flour''] (concat (map ingredient_item [''egg'', ''flour'']))
            pancakes_result (concat (map recipe_card (enumerate 0 [pancakes])))),
       SetDisabled RecipeButton False, SetTextContent ButtonText ''Get Recipes''], (1, 0))"
  by (rule getRecipes_success[where response = "json_response (detection_result [''egg'', ''flour''])"
        and result = "detection_result [''egg'', ''flour'']" and wa = "(0, 0)"
        and recipesResponse = "json_response pancakes_result"])
    (simp_all add: trim_question scripted_fetch_detection scripted_fetch_lookup detected_def
      detection_result_def json_response_def always_pancakes_def pancakes_result_def)

lemma photo_run:
  "getRecipes (scripted_fetch (detected [''tofu'']) unavailable_once) clock_timer
       [] (Some fridge_photo) (0, 0) =
     ([SetDisabled RecipeButton True, SetInnerHTML ButtonText analyzing_button_html,
       SetInnerHTML RecipeContent analyzing_html,
       Fetch (analyze_request (trim []) (Some fridge_photo)),
       SetInnerHTML RecipeContent (detected_html [''tofu''] (concat (map ingredient_item [''tofu'']))),
       SetInnerHTML ButtonText finding_button_html,
       Fetch recipes_request,
       ConsoleError (''Recipe fetch failed: '' @ statusText unavailable_response),
       SetInnerHTML RecipeContent (error_html (''Recipe fetch failed: '' @ statusText unavailable_response)),
       SetDisabled RecipeButton False, SetTextContent ButtonText ''Get Recipes''], (1, 0))"
  by (rule getRecipes_status_failure[where response = "json_response (detection_result [''tofu''])"
        and result = "detection_result [''tofu'']" and wa = "(0, 0)"])
    (simp_all add: trim_empty scripted_fetch_detection scripted_fetch_lookup detected_def
      detection_result_def json_response_def unavailable_once_def unavailable_response_def)

theorem lookup_request_is_fixed_witness:
  "recipes_request \<in> set (stage2_calls (fst (getRecipes
       (scripted_fetch (detected [''egg'', ''flour'']) always_pancakes) clock_timer
       ''what can I cook?'' None (0, 0))))
   \<and> recipes_request \<in> set (stage2_calls (fst (getRecipes
       (scripted_fetch (detected [''tofu'']) unavailable_once) clock_timer
       [] (Some fridge_photo) (0, 0))))
   \<and> body recipes_request = StringBody ''{}''"
proof -
  have u: "url (analyze_request q img) \<noteq> recipesUrl" for q img
    by (simp add: analyze_request_def urls_differ Let_def)
  have v: "url recipes_request = recipesUrl"
    by (simp add: recipes_request_def)
  have sa: "recipes_request \<in> set (stage2_calls (fst (getRecipes
       (scripted_fetch (detected [''egg'', ''flour'']) always_pancakes) clock_timer
       ''what can I cook?'' None (0, 0))))"
    unfolding pancakes_run by (simp add: stage2_calls_def u v)
  have sb: "recipes_request \<in> set (stage2_calls (fst (getRecipes
       (scripted_fetch (detected [''tofu'']) unavailable_once) clock_timer
       [] (Some fridge_photo) (0, 0))))"
    unfolding photo_run by (simp add: stage2_calls_def u v)
  show ?thesis
    using lookup_request_is_fixed[OF sa sb] sa sb by simp
qed

text \<open>
  Claim C9, as the code has it. A run that fails validation never writes the control's
  \<open>disabled\<close> flag: the check comes before the control is disabled. Every other run
  disables the control first, before any request, writes the flag nowhere in between, and
  ends with the \<open>finally\<close> block, which enables the control again; so after such a run,
  on every path, with or without a thrown error, the control is enabled.
\<close>

theorem busy_flag_discipline:
  "(trim promptValue = [] \<and> imageFile = None \<longrightarrow>
      filter writes_disabled (fst (getRecipes fetch setTimeout promptValue imageFile w)) = [])
   \<and> (trim promptValue \<noteq> [] \<or> imageFile \<noteq> None \<longrightarrow>
        (\<exists>mid. fst (getRecipes fetch setTimeout promptValue imageFile w) =
                  SetDisabled RecipeButton True # mid
                    @ [SetDisabled RecipeButton False, SetTextContent ButtonText ''Get Recipes'']
               \<and> filter writes_disabled mid = [])
        \<and> \<not> recipeButton_disabled
               (page_after p (fst (getRecipes fetch setTimeout promptValue imageFile w))))"
proof (intro conjI impI)
  assume "trim promptValue = [] \<and> imageFile = None"
  then show "filter writes_disabled (fst (getRecipes fetch setTimeout promptValue imageFile w)) = []"
    by (simp add: getRecipes_def)
next
  assume v: "trim promptValue \<noteq> [] \<or> imageFile \<noteq> None"
  from getRecipes_events[OF v, of fetch setTimeout w] obtain mid where
    mid: "fst (getRecipes fetch setTimeout promptValue imageFile w) =
            [SetDisabled RecipeButton True, SetInnerHTML ButtonText analyzing_button_html,
             SetInnerHTML RecipeContent analyzing_html,
             Fetch (analyze_request (trim promptValue) imageFile)]
            @ mid @ [SetDisabled RecipeButton False, SetTextContent ButtonText ''Get Recipes'']"
      and q: "\<forall>ev\<in>set mid. quiet ev"
    by blast
  let ?mid = "[SetInnerHTML ButtonText analyzing_button_html, SetInnerHTML RecipeContent analyzing_html,
               Fetch (analyze_request (trim promptValue) imageFile)] @ mid"
  have "fst (getRecipes fetch setTimeout promptValue imageFile w) =
          SetDisabled RecipeButton True # ?mid
            @ [SetDisabled RecipeButton False, SetTextContent ButtonText ''Get Recipes'']"
    using mid by simp
  moreover have "filter writes_disabled ?mid = []"
    using quiet_no_disabled_write[OF q] by simp
  ultimately show "\<exists>mid. fst (getRecipes fetch setTimeout promptValue imageFile w) =
                  SetDisabled RecipeButton True # mid
                    @ [SetDisabled RecipeButton False, SetTextContent ButtonText ''Get Recipes'']
               \<and> filter writes_disabled mid = []"
    by blast
  show "\<not> recipeButton_disabled
           (page_after p (fst (getRecipes fetch setTimeout promptValue imageFile w)))"
    unfolding mid by (simp add: page_after_def)
qed

theorem busy_flag_discipline_witness:
  "(trim [] = [] \<and> (None :: File option) = None)
   \<and> filter writes_disabled (fst (getRecipes (scripted_fetch (detected [''egg'']) never_reachable)
         clock_timer [] None (0, 0))) = []
   \<and> trim ''what can I cook?'' \<noteq> []
   \<and> (\<exists>mid. fst (getRecipes (scripted_fetch (detected [''egg'']) never_reachable) clock_timer
                   ''what can I cook?'' None (0, 0)) =
                  SetDisabled RecipeButton True # mid
                    @ [SetDisabled RecipeButton False, SetTextContent ButtonText ''Get Recipes'']
               \<and> filter writes_disabled mid = [])
   \<and> \<not> recipeButton_disabled
         (page_after (blank_page\<lparr>recipeButton_disabled := True\<rparr>)
            (fst (getRecipes (scripted_fetch (detected [''egg'']) never_reachable) clock_timer
                   ''what can I cook?'' None (0, 0))))"
  using busy_flag_discipline[of "[]" None "scripted_fetch (detected [''egg'']) never_reachable"
      clock_timer "(0, 0)" blank_page]
    busy_flag_discipline[of "''what can I cook?''" None
      "scripted_fetch (detected [''egg'']) never_reachable" clock_timer "(0, 0)"
      "blank_page\<lparr>recipeButton_disabled := True\<rparr>"]
  by (simp add: trim_empty trim_question)

text \<open>The claim as the spec states it fails on the run with an empty prompt and no file: that
  run never disables the control.\<close>

theorem busy_flag_counterexample:
  "filter is_disabling (fst (getRecipes (scripted_fetch (detected [''egg'']) always_pancakes)
      clock_timer [] None (0, 0))) = []"
  by (simp add: getRecipes_def trim_empty)

section \<open>The rendered page of the pancakes example\<close>









section \<open>Claims about the recipe lookup, the image and the rendering\<close>

text \<open>
  Claim C1, evaluated at a run in which the first recipe-lookup response has the status
  503 and every later one would succeed. \<open>fetch\<close> resolves with that response, so the
  executor returns it from its first attempt; the status is only looked at afterwards,
  outside the retried operation. The run sends the lookup request once, never waits, and
  ends with the error message \<open>Recipe fetch failed: Service Unavailable\<close>; the world has
  received one lookup request and no time has been spent waiting.
\<close>

theorem status_failure_is_not_retried:
  "getRecipes (scripted_fetch (detected [''egg'', ''flour'']) unavailable_once) clock_timer
       ''what can I cook?'' None (0, 0) =
     ([SetDisabled RecipeButton True, SetInnerHTML ButtonText analyzing_button_html,
       SetInnerHTML RecipeContent analyzing_html,
       Fetch (analyze_request ''what can I cook?'' None),
       SetInnerHTML RecipeContent
         (detected_html [''egg'', ''flour''] (concat (map ingredient_item [''egg'', ''flour'']))),
       SetInnerHTML ButtonText finding_button_html,
       Fetch recipes_request,
       ConsoleError ''Recipe fetch failed: Service Unavailable'',
       SetInnerHTML RecipeContent (error_html ''Recipe fetch failed: Service Unavailable''),
       SetDisabled RecipeButton False, SetTextContent ButtonText ''Get Recipes''], (1, 0))"
  using getRecipes_status_failure[where promptValue = "''what can I cook?''" and imageFile = None
      and fetch = "scripted_fetch (detected [''egg'', ''flour'']) unavailable_once"
      and w = "(0, 0)" and wa = "(0, 0)" and wb = "(1, 0)" and st = clock_timer
      and response = "json_response (detection_result [''egg'', ''flour''])"
      and result = "detection_result [''egg'', ''flour'']" and il = "[''egg'', ''flour'']"
      and recipesResponse = unavailable_response]
  by (simp add: trim_question scripted_fetch_detection scripted_fetch_lookup detected_def
      detection_result_def json_response_def unavailable_once_def unavailable_response_def)

text \<open>A rejected \<open>fetch\<close> is what the executor retries: when the lookup cannot be reached
  twice and then answers, the request is sent three times, with delays of 1000 and 2000
  milliseconds, and the run ends with the recipes of the third attempt.\<close>

lemma getRecipes_lookup:
  assumes "trim promptValue \<noteq> [] \<or> imageFile \<noteq> None"
    and "fetch (analyze_request (trim promptValue) imageFile) w = (Inr response, wa)"
    and "ok response" and "json response = Inr result"
    and "success result" and "ingredients result = Some il" and "il \<noteq> []"
    and "find_recipes fetch st il (concat (map ingredient_item il)) wa = (c, evs, wb)"
  shows "getRecipes fetch st promptValue imageFile w =
     ([SetDisabled RecipeButton True, SetInnerHTML ButtonText analyzing_button_html,
       SetInnerHTML RecipeContent analyzing_html,
       Fetch (analyze_request (trim promptValue) imageFile),
       SetInnerHTML RecipeContent (detected_html il (concat (map ingredient_item il))),
       SetInnerHTML ButtonText finding_button_html]
      @ evs
      @ (case c of
           Inl message \<Rightarrow> [ConsoleError message, SetInnerHTML RecipeContent (error_html message)]
         | Inr u \<Rightarrow> [])
      @ [SetDisabled RecipeButton False, SetTextContent ButtonText ''Get Recipes''], wb)"
proof -
  have an: "analyze fetch st (analyze_request (trim promptValue) imageFile) w =
      (c, [Fetch (analyze_request (trim promptValue) imageFile),
        SetInnerHTML RecipeContent (detected_html il (concat (map ingredient_item il))),
        SetInnerHTML ButtonText finding_button_html] @ evs, wb)"
    using assms(2-8) by (simp add: analyze_def Let_def)
  show ?thesis
    using assms(1) by (auto simp: getRecipes_def an Let_def)
qed

lemma rejected_lookup_is_retried:
  "getRecipes (scripted_fetch (detected [''egg'', ''flour'']) unreachable_twice) clock_timer
       ''what can I cook?'' None (0, 0) =
     ([SetDisabled RecipeButton True, SetInnerHTML ButtonText analyzing_button_html,
       SetInnerHTML RecipeContent analyzing_html,
       Fetch (analyze_request ''what can I cook?'' None),
       SetInnerHTML RecipeContent
         (detected_html [''egg'', ''flour''] (concat (map ingredient_item [''egg'', ''flour'']))),
       SetInnerHTML ButtonText finding_button_html,
       Fetch recipes_request, Delay 1000, Fetch recipes_request, Delay 2000, Fetch recipes_request,
       SetInnerHTML RecipeContent pancakes_page_html,
       SetDisabled RecipeButton False, SetTextContent ButtonText ''Get Recipes''], (3, 3000))"
proof -
  have fr: "find_recipes (scripted_fetch (detected [''egg'', ''flour'']) unreachable_twice) clock_timer
       [''egg'', ''flour''] (concat (map ingredient_item [''egg'', ''flour''])) (0, 0) =
     (Inr (), [Fetch recipes_request, Delay 1000, Fetch recipes_request, Delay 2000,
               Fetch recipes_request, SetInnerHTML RecipeContent pancakes_page_html], (3, 3000))"
    by (simp add: find_recipes_def withExponentialBackoff_def scripted_fetch_lookup
        unreachable_twice_def clock_timer_def json_response_def pancakes_page_html_def
        pancakes_result_def Let_def)
  show ?thesis
    using getRecipes_lookup[where promptValue = "''what can I cook?''" and imageFile = None
      and fetch = "scripted_fetch (detected [''egg'', ''flour'']) unreachable_twice"
      and w = "(0, 0)" and wa = "(0, 0)" and st = clock_timer
      and response = "json_response (detection_result [''egg'', ''flour''])"
      and result = "detection_result [''egg'', ''flour'']" and il = "[''egg'', ''flour'']",
      OF _ _ _ _ _ _ _ fr]
    by (simp add: trim_question scripted_fetch_detection detected_def
      detection_result_def json_response_def)
qed

text \<open>
  Claim C2, as the code has it. In a run with a selected image file the controller never
  reads the file and never calls the encoder: the first request is the detection request,
  and its multipart body carries the file itself under \<open>image\<close> (followed by the prompt
  when there is one). The encoder, applied to a file whose data URL has a comma, resolves
  with the text between the first comma and the next one (the whole rest when there is no
  other comma), that is with the prefix up to and including the first comma removed.
\<close>

theorem image_submitted_as_file:
  "(imageFile = Some f \<longrightarrow>
      filter is_file_read (fst (getRecipes fetch setTimeout promptValue imageFile w)) = []
      \<and> (\<exists>more. network_calls (fst (getRecipes fetch setTimeout promptValue imageFile w)) =
                   analyze_request (trim promptValue) (Some f) # more)
      \<and> body (analyze_request (trim promptValue) (Some f)) =
           FormDataBody ((''image'', FileEntry f)
              # (if trim promptValue \<noteq> [] then [(''prompt'', TextEntry (trim promptValue))] else [])))
   \<and> (readAsDataURL g = Inr (pre @ CHR '','' # rest) \<and> CHR '','' \<notin> set pre \<longrightarrow>
        fileToBase64 readAsDataURL g =
          (Inr (Some (takeWhile (\<lambda>c. c \<noteq> CHR '','') rest)), [ReadAsDataURL g]))"
proof (intro conjI impI)
  assume img: "imageFile = Some f"
  then have v: "trim promptValue \<noteq> [] \<or> imageFile \<noteq> None" by simp
  from getRecipes_events[OF v, of fetch setTimeout w] obtain mid where
    mid: "fst (getRecipes fetch setTimeout promptValue imageFile w) =
            [SetDisabled RecipeButton True, SetInnerHTML ButtonText analyzing_button_html,
             SetInnerHTML RecipeContent analyzing_html,
             Fetch (analyze_request (trim promptValue) imageFile)]
            @ mid @ [SetDisabled RecipeButton False, SetTextContent ButtonText ''Get Recipes'']"
      and q: "\<forall>ev\<in>set mid. quiet ev"
    by blast
  show "filter is_file_read (fst (getRecipes fetch setTimeout promptValue imageFile w)) = []"
    unfolding mid using quiet_no_file_read[OF q] by simp
  show "\<exists>more. network_calls (fst (getRecipes fetch setTimeout promptValue imageFile w)) =
                   analyze_request (trim promptValue) (Some f) # more"
    unfolding mid using img by (simp add: network_calls_append)
  show "body (analyze_request (trim promptValue) (Some f)) =
           FormDataBody ((''image'', FileEntry f)
              # (if trim promptValue \<noteq> [] then [(''prompt'', TextEntry (trim promptValue))] else []))"
    by (simp add: analyze_request_def Let_def)
next
  assume "readAsDataURL g = Inr (pre @ CHR '','' # rest) \<and> CHR '','' \<notin> set pre"
  then show "fileToBase64 readAsDataURL g =
          (Inr (Some (takeWhile (\<lambda>c. c \<noteq> CHR '','') rest)), [ReadAsDataURL g])"
    using split_second[of "CHR '',''" pre rest] by (simp add: fileToBase64_def)
qed

theorem image_submitted_as_file_witness:
  "(Some fridge_photo = Some fridge_photo)
   \<and> filter is_file_read (fst (getRecipes (scripted_fetch (detected [''tofu'']) unavailable_once)
         clock_timer [] (Some fridge_photo) (0, 0))) = []
   \<and> (\<exists>more. network_calls (fst (getRecipes (scripted_fetch (detected [''tofu'']) unavailable_once)
         clock_timer [] (Some fridge_photo) (0, 0))) = analyze_request [] (Some fridge_photo) # more)
   \<and> body (analyze_request [] (Some fridge_photo)) = FormDataBody [(''image'', FileEntry fridge_photo)]
   \<and> (fridge_data_url fridge_photo = Inr (''data:image/png;base64'' @ CHR '','' # ''iVBORw=='')
        \<and> CHR '','' \<notin> set ''data:image/png;base64'')
   \<and> fileToBase64 fridge_data_url fridge_photo = (Inr (Some ''iVBORw==''), [ReadAsDataURL fridge_photo])"
  using image_submitted_as_file[where imageFile = "Some fridge_photo" and f = fridge_photo
      and promptValue = "[]" and fetch = "scripted_fetch (detected [''tofu'']) unavailable_once"
      and setTimeout = clock_timer and w = "(0, 0)" and readAsDataURL = fridge_data_url
      and g = fridge_photo and pre = "''data:image/png;base64''" and rest = "''iVBORw==''"]
  by (simp add: trim_empty fridge_data_url_def fridge_photo_def)

text \<open>The claim as the spec states it fails on the run with the photo and no prompt: nothing
  reads the file, and what is submitted under \<open>image\<close> is the file, not a text.\<close>

theorem image_not_encoded_counterexample:
  "filter is_file_read (fst (getRecipes (scripted_fetch (detected [''tofu'']) unavailable_once)
       clock_timer [] (Some fridge_photo) (0, 0))) = []
   \<and> body (hd (network_calls (fst (getRecipes (scripted_fetch (detected [''tofu'']) unavailable_once)
       clock_timer [] (Some fridge_photo) (0, 0))))) = FormDataBody [(''image'', FileEntry fridge_photo)]"
  unfolding photo_run by (simp add: analyze_request_def trim_empty Let_def)

section \<open>Claims about the markdown transform and the rendered recipes\<close>

text \<open>
  Claim C4, evaluated at the input of the claim. The heading, the two list items and the
  strong emphasis are produced, each rewrite applied once; but the list items are not
  wrapped: the item rewrite produces \<open><li class="ml-6">\<close> and the wrapping rewrite
  looks for \<open><li>\<close>, which does not occur, so the output has no list container at all.
\<close>

theorem markdown_example_has_no_list_container:
  \<open>simpleMarkdownToHtml ''## Title\<newline>* a\<newline>* b\<newline>**bold**'' =
     ''<h2 class="text-2xl font-bold mt-6 mb-3 text-blue-800">Title</h2>\<newline><li class="ml-6">a</li>\<newline><li class="ml-6">b</li>\<newline><strong>bold</strong>''
   \<and> indexOf (simpleMarkdownToHtml ''## Title\<newline>* a\<newline>* b\<newline>**bold**'') ''<ul'' = None\<close>
proof -
  have out: \<open>simpleMarkdownToHtml ''## Title\<newline>* a\<newline>* b\<newline>**bold**'' =
     ''<h2 class="text-2xl font-bold mt-6 mb-3 text-blue-800">Title</h2>\<newline><li class="ml-6">a</li>\<newline><li class="ml-6">b</li>\<newline><strong>bold</strong>''\<close>
    by (simp add: simpleMarkdownToHtml_def Let_def replace_line_prefix_def replace_whole_line_def
      wrap_list_items_def wrap_paragraph_def is_line_terminator_def startsWith_eval trim_def
      is_white_space_def)
  have none: \<open>indexOf ''<h2 class="text-2xl font-bold mt-6 mb-3 text-blue-800">Title</h2>\<newline><li class="ml-6">a</li>\<newline><li class="ml-6">b</li>\<newline><strong>bold</strong>'' ''<ul'' = None\<close>
    by (simp add: indexOf_def startsWith_eval)
  show ?thesis
    unfolding out using none by simp
qed

text \<open>Items written as plain \<open><li>\<close> elements are wrapped once, as the rewrite intends.\<close>

lemma wrap_list_items_plain:
  \<open>wrap_list_items ''<li>a</li>\<newline><li>b</li>\<newline>x'' =
     ''<ul class="list-disc my-2"><li>a</li>\<newline><li>b</li>\<newline></ul>x''\<close>
  by (simp add: wrap_list_items_def startsWith_eval Let_def)




end
